theory Spec2Isabelle
  imports Complex_Main
begin

section \<open>Arrays and numbers\<close>

text \<open>
  The agent of \<^verbatim>\<open>rlax_rainbow.py\<close> computes on float32 arrays.  Floats are modelled by
  the reals, a one-dimensional array by a list, a batch by a list of rows.  The only
  non-finite value the policies create on purpose is \<^verbatim>\<open>-jnp.inf\<close>, written over the
  Q-values of illegal actions; preferences therefore range over \<open>xreal\<close>.  NaN is not
  modelled: it arises in the source only from an empty legal mask, a temperature
  \<open>tau \<le> 0\<close> or a zero priority, and the general lemmas below that depend on such an
  input exclude it by a hypothesis.
\<close>

datatype error =
  ValueError | ZeroDivisionError | IndexError | NameError | TypeError | AttributeError | BufferError

datatype xreal = NegInf | Fin real

fun xmax :: "xreal \<Rightarrow> xreal \<Rightarrow> xreal" where
  "xmax NegInf y = y"
| "xmax x NegInf = x"
| "xmax (Fin a) (Fin b) = Fin (max a b)"

text \<open>\<^verbatim>\<open>x.max(axis=-1)\<close> over one row.\<close>

definition xmaximum :: "xreal list \<Rightarrow> xreal" where
  "xmaximum xs = foldr xmax xs NegInf"

text \<open>\<^verbatim>\<open>x / tau\<close> for a positive temperature: \<^verbatim>\<open>-inf\<close> stays \<^verbatim>\<open>-inf\<close>.\<close>

fun xdiv :: "xreal \<Rightarrow> real \<Rightarrow> xreal" where
  "xdiv NegInf t = NegInf"
| "xdiv (Fin a) t = Fin (a / t)"

text \<open>
  \<^verbatim>\<open>jnp.exp(w - m)\<close>: \<open>exp (-inf) = 0\<close>.  With \<open>m = -inf\<close> the float is NaN (no legal action);
  the model returns 0 there.
\<close>

fun xexp_sub :: "xreal \<Rightarrow> xreal \<Rightarrow> real" where
  "xexp_sub (Fin w) (Fin m) = exp (w - m)"
| "xexp_sub NegInf (Fin m) = 0"
| "xexp_sub w NegInf = 0"

text \<open>\<^verbatim>\<open>jnp.cumsum(probs, axis=-1)\<close> over one row.\<close>

fun cumsum_from :: "real \<Rightarrow> real list \<Rightarrow> real list" where
  "cumsum_from acc [] = []"
| "cumsum_from acc (x # xs) = (acc + x) # cumsum_from (acc + x) xs"

definition cumsum :: "real list \<Rightarrow> real list" where
  "cumsum xs = cumsum_from 0 xs"

text \<open>
  \<^verbatim>\<open>jnp.argmin\<close> of a row of booleans: the first index holding the minimum, which is
  the first \<open>False\<close>, or index 0 when every entry is \<open>True\<close>.
\<close>

definition first_false :: "bool list \<Rightarrow> nat" where
  "first_false bs = length (takeWhile (\<lambda>b. b) bs)"

definition argmin_bool :: "bool list \<Rightarrow> nat" where
  "argmin_bool bs = (if first_false bs < length bs then first_false bs else 0)"

text \<open>\<^verbatim>\<open>jnp.argmax\<close> of a row of reals: the first index holding the maximum.\<close>

fun argmax_from :: "nat \<Rightarrow> real \<Rightarrow> nat \<Rightarrow> real list \<Rightarrow> nat" where
  "argmax_from best v i [] = best"
| "argmax_from best v i (x # xs) =
     (if v < x then argmax_from i x (Suc i) xs else argmax_from best v (Suc i) xs)"

fun argmax :: "real list \<Rightarrow> nat" where
  "argmax [] = 0"
| "argmax (x # xs) = argmax_from 0 x 1 xs"

text \<open>\<^verbatim>\<open>jnp.mean(x, axis=-1)\<close> and \<^verbatim>\<open>jax.nn.softmax(x, axis=-1)\<close> over one row.\<close>

definition mean :: "real list \<Rightarrow> real" where
  "mean xs = sum_list xs / real (length xs)"

definition softmax :: "real list \<Rightarrow> real list" where
  "softmax xs = map (\<lambda>x. exp x / sum_list (map exp xs)) xs"

text \<open>
  Indexing a jax array by a traced index clamps the index into range instead of
  raising.
\<close>

definition jidx :: "'a list \<Rightarrow> nat \<Rightarrow> 'a" where
  "jidx xs i = xs ! (min i (length xs - 1))"

section \<open>PolicyEngine: \<^verbatim>\<open>DQNPolicy\<close>\<close>

type_synonym params = "real list"
type_synonym key = nat
type_synonym obs = "real list"

text \<open>
  The haiku network is external.  \<^verbatim>\<open>network.apply(params, key, obs)\<close> returns an array
  \<^verbatim>\<open>[batch, actions]\<close> in scalar mode and \<^verbatim>\<open>[batch, actions, atoms]\<close> in distributional
  mode; the two fields are the two readings of the one function.
\<close>

record network =
  apply_q :: "params \<Rightarrow> key \<Rightarrow> obs list \<Rightarrow> real list list"
  apply_logits :: "params \<Rightarrow> key \<Rightarrow> obs list \<Rightarrow> real list list list"

text \<open>
  \<^verbatim>\<open>jax.random.uniform(key, shape=(n, 1), maxval=0.999)\<close> is external as well: a function
  \<open>uniform key n\<close> that returns the \<open>n\<close> draws, each in the half-open interval
  \<open>[0, 0.999)\<close>.
\<close>

type_synonym uniform = "key \<Rightarrow> nat \<Rightarrow> real list"

text \<open>
  \<^verbatim>\<open>_categorical_sample\<close>, one row: cumulative sums, the last one overwritten with 1, and
  the first index whose cumulative sum the draw does not exceed.
\<close>

definition categorical_sample_row :: "real \<Rightarrow> real list \<Rightarrow> nat" where
  "categorical_sample_row rnd probs =
     (let cpi = cumsum probs;
          cpi = cpi[length cpi - 1 := 1]
      in argmin_bool (map (\<lambda>c. rnd > c) cpi))"

definition categorical_sample :: "uniform \<Rightarrow> key \<Rightarrow> real list list \<Rightarrow> nat list" where
  "categorical_sample uniform key probs =
     map2 categorical_sample_row (uniform key (length probs)) probs"

definition mix_with_legal_uniform_row :: "real list \<Rightarrow> real \<Rightarrow> bool list \<Rightarrow> real list" where
  "mix_with_legal_uniform_row probs epsilon legal =
     (let num_legal = sum_list (map of_bool legal);
          uniform_probs = map (\<lambda>l. of_bool l / num_legal) legal
      in map2 (\<lambda>p u. (1 - epsilon) * p + epsilon * u) probs uniform_probs)"

definition mix_with_legal_uniform ::
  "real list list \<Rightarrow> real \<Rightarrow> bool list list \<Rightarrow> real list list" where
  "mix_with_legal_uniform probs epsilon legal =
     map2 (\<lambda>p l. mix_with_legal_uniform_row p epsilon l) probs legal"

definition apply_legal_boltzmann_row :: "xreal list \<Rightarrow> real \<Rightarrow> bool list \<Rightarrow> real list" where
  "apply_legal_boltzmann_row probs tau legal =
     (let weighted_probs = map (\<lambda>p. xdiv p tau) probs;
          m = xmaximum weighted_probs;
          boltzmann_probs = map2 (\<lambda>l w. if l then xexp_sub w m else 0) legal weighted_probs
      in map (\<lambda>b. b / sum_list boltzmann_probs) boltzmann_probs)"

definition apply_legal_boltzmann ::
  "xreal list list \<Rightarrow> real \<Rightarrow> bool list list \<Rightarrow> real list list" where
  "apply_legal_boltzmann probs tau legal =
     map2 (\<lambda>p l. apply_legal_boltzmann_row p tau l) probs legal"

definition argmax_with_random_tie_breaking_row :: "xreal list \<Rightarrow> real list" where
  "argmax_with_random_tie_breaking_row preferences =
     (let optimal_actions = map (\<lambda>p. p = xmaximum preferences) preferences
      in map (\<lambda>b. of_bool b / sum_list (map of_bool optimal_actions)) optimal_actions)"

definition argmax_with_random_tie_breaking :: "xreal list list \<Rightarrow> real list list" where
  "argmax_with_random_tie_breaking preferences =
     map argmax_with_random_tie_breaking_row preferences"

text \<open>The \<^verbatim>\<open>sample\<close> and \<^verbatim>\<open>probs\<close> members of \<^verbatim>\<open>legal_epsilon_greedy\<close> and \<^verbatim>\<open>legal_softmax\<close>.\<close>

definition legal_epsilon_greedy_probs ::
  "real \<Rightarrow> xreal list list \<Rightarrow> bool list list \<Rightarrow> real list list" where
  "legal_epsilon_greedy_probs epsilon preferences legal =
     mix_with_legal_uniform (argmax_with_random_tie_breaking preferences) epsilon legal"

definition legal_epsilon_greedy_sample ::
  "uniform \<Rightarrow> real \<Rightarrow> key \<Rightarrow> xreal list list \<Rightarrow> bool list list \<Rightarrow> nat list" where
  "legal_epsilon_greedy_sample uniform epsilon key preferences legal =
     (let probs = argmax_with_random_tie_breaking preferences;
          probs = mix_with_legal_uniform probs epsilon legal
      in categorical_sample uniform key probs)"

definition legal_softmax_probs ::
  "real \<Rightarrow> xreal list list \<Rightarrow> bool list list \<Rightarrow> real list list" where
  "legal_softmax_probs tau preferences legal = apply_legal_boltzmann preferences tau legal"

definition legal_softmax_sample ::
  "uniform \<Rightarrow> real \<Rightarrow> key \<Rightarrow> xreal list list \<Rightarrow> bool list list \<Rightarrow> nat list" where
  "legal_softmax_sample uniform tau key preferences legal =
     (let probs = apply_legal_boltzmann preferences tau legal
      in categorical_sample uniform key probs)"

text \<open>
  \<^verbatim>\<open>jnp.mean(probs * atoms, axis=-1)\<close> for one action: the products of the atom
  probabilities with the atom values, averaged over the atoms.
\<close>

definition dist_q_value :: "real list \<Rightarrow> real list \<Rightarrow> real" where
  "dist_q_value probs atoms = mean (map2 (*) probs atoms)"

text \<open>\<^verbatim>\<open>jnp.where(lms, q_vals, -jnp.inf)\<close>.\<close>

definition mask_illegal :: "bool list list \<Rightarrow> real list list \<Rightarrow> xreal list list" where
  "mask_illegal lms q_vals = map2 (map2 (\<lambda>l q. if l then Fin q else NegInf)) lms q_vals"

definition policy ::
  "uniform \<Rightarrow> network \<Rightarrow> bool \<Rightarrow> bool \<Rightarrow> real list list \<Rightarrow> params \<Rightarrow> real \<Rightarrow> real \<Rightarrow> key \<Rightarrow>
   obs list \<Rightarrow> bool list list \<Rightarrow> xreal list list \<times> nat list" where
  "policy uniform network use_distribution use_softmax atoms net_params epsilon tau key obs lms =
     (let q_vals =
            (if use_distribution then
               (let logits = apply_logits network net_params key obs;
                    probs = map (map softmax) logits
                in map (\<lambda>row. map2 dist_q_value row atoms) probs)
             else apply_q network net_params key obs);
          q_vals = mask_illegal lms q_vals;
          actions =
            (if use_softmax then legal_softmax_sample uniform tau key q_vals lms
             else legal_epsilon_greedy_sample uniform epsilon key q_vals lms)
      in (q_vals, actions))"

text \<open>
  \<^verbatim>\<open>rlax.greedy().sample\<close> belongs to the rlax library; \<^verbatim>\<open>eval_policy\<close> takes it as the
  parameter \<open>greedy_sample\<close>.
\<close>

definition eval_policy ::
  "(key \<Rightarrow> xreal list list \<Rightarrow> nat list) \<Rightarrow> network \<Rightarrow> bool \<Rightarrow> real list list \<Rightarrow> params \<Rightarrow> key \<Rightarrow>
   obs list \<Rightarrow> bool list list \<Rightarrow> nat list" where
  "eval_policy greedy_sample network use_distribution atoms net_params key obs lms =
     (let q_vals =
            (if use_distribution then
               (let logits = apply_logits network net_params key obs;
                    probs = map (map softmax) logits
                in map (\<lambda>row. map2 dist_q_value row atoms) probs)
             else apply_q network net_params key obs);
          q_vals = mask_illegal lms q_vals
      in greedy_sample key q_vals)"

section \<open>LearningEngine: \<^verbatim>\<open>DQNLearning.update_q\<close>\<close>

subsection \<open>The optimizer\<close>

text \<open>
  \<^verbatim>\<open>custom_adam\<close> chains the single optax transformation \<^verbatim>\<open>scale_by_adam\<close>, whose state
  is a step count and the two moment estimates.  The rule is optax's: exponential moving
  averages of the gradient and of its square, both bias-corrected by the step count.
  (optax saturates the count at the largest int32; the model counts in \<open>nat\<close>.)
\<close>

record adam_state =
  count :: nat
  mu :: "real list"
  nu :: "real list"

record optimizer =
  opt_init :: "params \<Rightarrow> adam_state"
  opt_update :: "real list \<Rightarrow> adam_state \<Rightarrow> real list \<times> adam_state"

definition scale_by_adam_init :: "params \<Rightarrow> adam_state" where
  "scale_by_adam_init ps = \<lparr>count = 0, mu = map (\<lambda>_. 0) ps, nu = map (\<lambda>_. 0) ps\<rparr>"

definition scale_by_adam ::
  "real \<Rightarrow> real \<Rightarrow> real \<Rightarrow> real \<Rightarrow> real list \<Rightarrow> adam_state \<Rightarrow> real list \<times> adam_state" where
  "scale_by_adam b1 b2 eps eps_root updates state =
     (let mu' = map2 (\<lambda>g m. (1 - b1) * g + b1 * m) updates (mu state);
          nu' = map2 (\<lambda>g v. (1 - b2) * g\<^sup>2 + b2 * v) updates (nu state);
          count_inc = count state + 1;
          mu_hat = map (\<lambda>m. m / (1 - b1 ^ count_inc)) mu';
          nu_hat = map (\<lambda>v. v / (1 - b2 ^ count_inc)) nu';
          updates' = map2 (\<lambda>m v. m / (sqrt (v + eps_root) + eps)) mu_hat nu_hat
      in (updates', \<lparr>count = count_inc, mu = mu', nu = nu'\<rparr>))"

definition custom_adam :: "real \<Rightarrow> real \<Rightarrow> real \<Rightarrow> real \<Rightarrow> optimizer" where
  "custom_adam b1 b2 eps eps_root =
     \<lparr>opt_init = scale_by_adam_init, opt_update = scale_by_adam b1 b2 eps eps_root\<rparr>"

definition apply_lr :: "real \<Rightarrow> real list \<Rightarrow> adam_state \<Rightarrow> real list" where
  "apply_lr lr updates state = map (\<lambda>g. lr * g) updates"

text \<open>\<^verbatim>\<open>optax.apply_updates\<close>: leafwise \<open>p + u\<close>.\<close>

definition apply_updates :: "params \<Rightarrow> real list \<Rightarrow> params" where
  "apply_updates ps updates = map2 (+) ps updates"

subsection \<open>The rlax temporal-difference errors\<close>

text \<open>
  What \<^verbatim>\<open>update_q\<close> takes from outside: reverse-mode differentiation (\<^verbatim>\<open>jax.grad\<close>, here
  an operator from a scalar function of the parameters to its gradient) and rlax's
  projection of a distribution onto the atom support and its cross-entropy.
\<close>

record learn_ext =
  jax_grad :: "(params \<Rightarrow> real) \<Rightarrow> params \<Rightarrow> real list"
  categorical_l2_project :: "real list \<Rightarrow> real list \<Rightarrow> real list \<Rightarrow> real list"
  categorical_cross_entropy :: "real list \<Rightarrow> real list \<Rightarrow> real"

text \<open>\<^verbatim>\<open>jnp.max\<close> of a row of reals.\<close>

definition rmaximum :: "real list \<Rightarrow> real" where
  "rmaximum xs = fold max xs (hd xs)"

text \<open>
  The four rlax errors for one transition.  Each forms its bootstrap target from the
  reward and the discounted next-state value: a scalar \<open>r + discount * v\<close>, or the atom
  support shifted and scaled to \<open>r + discount * z\<close>.
\<close>

definition rlax_q_learning :: "real list \<Rightarrow> nat \<Rightarrow> real \<Rightarrow> real \<Rightarrow> real list \<Rightarrow> real" where
  "rlax_q_learning q_tm1 a_tm1 r_t discount_t q_t =
     (let target_tm1 = r_t + discount_t * rmaximum q_t
      in target_tm1 - jidx q_tm1 a_tm1)"

definition rlax_double_q_learning ::
  "real list \<Rightarrow> nat \<Rightarrow> real \<Rightarrow> real \<Rightarrow> real list \<Rightarrow> real list \<Rightarrow> real" where
  "rlax_double_q_learning q_tm1 a_tm1 r_t discount_t q_t_value q_t_selector =
     (let target_tm1 = r_t + discount_t * jidx q_t_value (argmax q_t_selector)
      in target_tm1 - jidx q_tm1 a_tm1)"

definition rlax_categorical_q_learning ::
  "learn_ext \<Rightarrow> real list \<Rightarrow> real list list \<Rightarrow> nat \<Rightarrow> real \<Rightarrow> real \<Rightarrow> real list \<Rightarrow>
   real list list \<Rightarrow> real" where
  "rlax_categorical_q_learning X q_atoms_tm1 q_logits_tm1 a_tm1 r_t discount_t q_atoms_t q_logits_t =
     (let target_z = map (\<lambda>z. r_t + discount_t * z) q_atoms_t;
          q_t_probs = map softmax q_logits_t;
          q_t_mean = map (\<lambda>p. sum_list (map2 (*) p q_atoms_t)) q_t_probs;
          pi_t = argmax q_t_mean;
          p_target_z = jidx q_t_probs pi_t;
          target = categorical_l2_project X target_z p_target_z q_atoms_tm1;
          logit_qa_tm1 = jidx q_logits_tm1 a_tm1
      in categorical_cross_entropy X target logit_qa_tm1)"

definition rlax_categorical_double_q_learning ::
  "learn_ext \<Rightarrow> real list \<Rightarrow> real list list \<Rightarrow> nat \<Rightarrow> real \<Rightarrow> real \<Rightarrow> real list \<Rightarrow>
   real list list \<Rightarrow> real list \<Rightarrow> real" where
  "rlax_categorical_double_q_learning X q_atoms_tm1 q_logits_tm1 a_tm1 r_t discount_t q_atoms_t
       q_logits_t q_t_selector =
     (let target_z = map (\<lambda>z. r_t + discount_t * z) q_atoms_t;
          p_target_z = softmax (jidx q_logits_t (argmax q_t_selector));
          target = categorical_l2_project X target_z p_target_z q_atoms_tm1;
          logit_qa_tm1 = jidx q_logits_tm1 a_tm1
      in categorical_cross_entropy X target logit_qa_tm1)"

subsection \<open>The four losses of \<^verbatim>\<open>update_q\<close>\<close>

text \<open>
  A sampled batch, as the dictionary of arrays the buffer returns.  \<^verbatim>\<open>action_tm1\<close>,
  \<^verbatim>\<open>reward_t\<close> and \<^verbatim>\<open>terminal_t\<close> have one column, which \<^verbatim>\<open>update_q\<close> selects (\<^verbatim>\<open>[:, 0]\<close>,
  \<^verbatim>\<open>reshape(r_t.shape)\<close>); the fields hold that column.
\<close>

record transitions =
  observation_tm1 :: "obs list"
  action_tm1 :: "nat list"
  reward_t :: "real list"
  observation_t :: "obs list"
  legal_moves_t :: "bool list list"
  terminal_t :: "bool list"

text \<open>\<^verbatim>\<open>jnp.where(term_t, 0, discount_t)\<close>: the scalar discount, zeroed per transition.\<close>

definition zero_terminal_discount :: "bool list \<Rightarrow> real \<Rightarrow> real list" where
  "zero_terminal_discount term_t discount_t = map (\<lambda>t. if t then 0 else discount_t) term_t"

text \<open>
  \<^verbatim>\<open>jax.vmap\<close> over the batch axis runs the error once per transition; the batch size is
  that of the rewards.
\<close>

definition categorical_double_q_td ::
  "learn_ext \<Rightarrow> network \<Rightarrow> real list list \<Rightarrow> key \<Rightarrow> key \<Rightarrow> key \<Rightarrow> params \<Rightarrow> params \<Rightarrow>
   obs list \<Rightarrow> nat list \<Rightarrow> real list \<Rightarrow> obs list \<Rightarrow> bool list \<Rightarrow> real \<Rightarrow> real list" where
  "categorical_double_q_td X network atoms key_online key_target key_selector online_params trg_params
       obs_tm1 a_tm1 r_t obs_t term_t discount_t =
     (let q_logits_tm1 = apply_logits network online_params key_online obs_tm1;
          q_logits_t = apply_logits network trg_params key_target obs_t;
          q_logits_sel = apply_logits network online_params key_selector obs_t;
          q_sel = map (\<lambda>row. map2 dist_q_value (map softmax row) atoms) q_logits_sel;
          discount_t = zero_terminal_discount term_t discount_t
      in map (\<lambda>i. rlax_categorical_double_q_learning X (atoms ! 0) (q_logits_tm1 ! i) (a_tm1 ! i)
                    (r_t ! i) (discount_t ! i) (atoms ! 0) (q_logits_t ! i) (q_sel ! i))
           [0..<length r_t])"

definition categorical_q_td ::
  "learn_ext \<Rightarrow> network \<Rightarrow> real list list \<Rightarrow> key \<Rightarrow> key \<Rightarrow> key \<Rightarrow> params \<Rightarrow> params \<Rightarrow>
   obs list \<Rightarrow> nat list \<Rightarrow> real list \<Rightarrow> obs list \<Rightarrow> bool list \<Rightarrow> real \<Rightarrow> real list" where
  "categorical_q_td X network atoms key_online key_target key_selector online_params trg_params
       obs_tm1 a_tm1 r_t obs_t term_t discount_t =
     (let q_logits_tm1 = apply_logits network online_params key_online obs_tm1;
          q_logits_t = apply_logits network trg_params key_target obs_t;
          discount_t = zero_terminal_discount term_t discount_t
      in map (\<lambda>i. rlax_categorical_q_learning X (atoms ! 0) (q_logits_tm1 ! i) (a_tm1 ! i)
                    (r_t ! i) (discount_t ! i) (atoms ! 0) (q_logits_t ! i))
           [0..<length r_t])"

definition double_q_td ::
  "learn_ext \<Rightarrow> network \<Rightarrow> real list list \<Rightarrow> key \<Rightarrow> key \<Rightarrow> key \<Rightarrow> params \<Rightarrow> params \<Rightarrow>
   obs list \<Rightarrow> nat list \<Rightarrow> real list \<Rightarrow> obs list \<Rightarrow> bool list \<Rightarrow> real \<Rightarrow> real list" where
  "double_q_td X network atoms key_online key_target key_selector online_params trg_params
       obs_tm1 a_tm1 r_t obs_t term_t discount_t =
     (let q_tm1 = apply_q network online_params key_online obs_tm1;
          q_t = apply_q network trg_params key_target obs_t;
          q_t_selector = apply_q network online_params key_selector obs_t;
          discount_t = zero_terminal_discount term_t discount_t;
          td_errors = map (\<lambda>i. rlax_double_q_learning (q_tm1 ! i) (a_tm1 ! i) (r_t ! i)
                                 (discount_t ! i) (q_t ! i) (q_t_selector ! i))
                        [0..<length r_t]
      in map (\<lambda>e. e\<^sup>2) td_errors)"

definition q_td ::
  "learn_ext \<Rightarrow> network \<Rightarrow> real list list \<Rightarrow> key \<Rightarrow> key \<Rightarrow> key \<Rightarrow> params \<Rightarrow> params \<Rightarrow>
   obs list \<Rightarrow> nat list \<Rightarrow> real list \<Rightarrow> obs list \<Rightarrow> bool list \<Rightarrow> real \<Rightarrow> real list" where
  "q_td X network atoms key_online key_target key_selector online_params trg_params
       obs_tm1 a_tm1 r_t obs_t term_t discount_t =
     (let q_tm1 = apply_q network online_params key_online obs_tm1;
          q_t = apply_q network trg_params key_target obs_t;
          discount_t = zero_terminal_discount term_t discount_t;
          td_errors = map (\<lambda>i. rlax_q_learning (q_tm1 ! i) (a_tm1 ! i) (r_t ! i)
                                 (discount_t ! i) (q_t ! i))
                        [0..<length r_t]
      in map (\<lambda>e. e\<^sup>2) td_errors)"

text \<open>
  \<^verbatim>\<open>loss\<close>: the importance-sampling weights, the batch error of the variant chosen by the
  two flags, the weighted mean (what is differentiated) and the new priorities (the
  auxiliary output).
\<close>

definition loss ::
  "learn_ext \<Rightarrow> network \<Rightarrow> real list list \<Rightarrow> real \<Rightarrow> bool \<Rightarrow> bool \<Rightarrow> key \<Rightarrow> key \<Rightarrow> key \<Rightarrow>
   params \<Rightarrow> params \<Rightarrow> obs list \<Rightarrow> nat list \<Rightarrow> real list \<Rightarrow> obs list \<Rightarrow> bool list \<Rightarrow> real \<Rightarrow>
   real list \<Rightarrow> real \<times> real list" where
  "loss X network atoms beta_is use_double_q use_distribution key_online key_target key_selector
       online_params trg_params obs_tm1 a_tm1 r_t obs_t term_t discount_t prios =
     (let weights_is = map (\<lambda>p. (1 / p) powr beta_is) prios;
          weights_is = map (\<lambda>w. w / rmaximum weights_is) weights_is;
          q_loss_td =
            (if use_distribution
             then (if use_double_q then categorical_double_q_td else categorical_q_td)
             else (if use_double_q then double_q_td else q_td));
          batch_loss = q_loss_td X network atoms key_online key_target key_selector
                         online_params trg_params obs_tm1 a_tm1 r_t obs_t term_t discount_t;
          mean_loss = mean (map2 (*) batch_loss weights_is);
          new_prios = (if use_distribution then map abs batch_loss else map sqrt batch_loss)
      in (mean_loss, new_prios))"

definition update_q ::
  "learn_ext \<Rightarrow> network \<Rightarrow> real list list \<Rightarrow> optimizer \<Rightarrow> real \<Rightarrow> params \<Rightarrow> params \<Rightarrow>
   adam_state \<Rightarrow> transitions \<Rightarrow> real \<Rightarrow> real list \<Rightarrow> real \<Rightarrow> bool \<Rightarrow> bool \<Rightarrow> key \<Rightarrow> key \<Rightarrow> key \<Rightarrow>
   params \<times> adam_state \<times> real list" where
  "update_q X network atoms optimizer lr online_params trg_params opt_state transitions discount_t
       prios beta_is use_double_q use_distribution key_online key_target key_selector =
     (let loss_fn = (\<lambda>ps. loss X network atoms beta_is use_double_q use_distribution
                            key_online key_target key_selector ps trg_params
                            (observation_tm1 transitions) (action_tm1 transitions)
                            (reward_t transitions) (observation_t transitions)
                            (terminal_t transitions) discount_t prios);
          grads = jax_grad X (\<lambda>ps. fst (loss_fn ps)) online_params;
          new_prios = snd (loss_fn online_params);
          (updates, opt_state_t) = opt_update optimizer grads opt_state;
          updates = apply_lr lr updates opt_state;
          online_params_t = apply_updates online_params updates
      in (online_params_t, opt_state_t, new_prios))"

section \<open>PopulationOrchestrator: \<^verbatim>\<open>DQNAgent\<close>\<close>

subsection \<open>State\<close>

text \<open>
  The fields of \<^verbatim>\<open>RlaxRainbowParams\<close> that the agent reads.  \<^verbatim>\<open>__init__\<close> turns a constant
  \<^verbatim>\<open>epsilon\<close>, \<^verbatim>\<open>tau\<close> or \<^verbatim>\<open>beta_is\<close> into a constant function of the training step, so
  the three are schedules here.
\<close>

record rainbow_params =
  use_distribution :: bool
  use_double_q :: bool
  use_boltzmann_exploration :: bool
  use_priority :: bool
  fixed_weights :: bool
  epsilon :: "nat \<Rightarrow> real"
  tau :: "nat \<Rightarrow> real"
  beta_is :: "nat \<Rightarrow> real"
  discount :: real
  target_update_period :: nat
  train_batch_size :: nat
  past_obs_size :: nat
  history_size :: nat
  n_atoms :: nat
  atom_vmax :: real
  seed :: nat

text \<open>
  The agent, one list entry per population member where the source holds an array with
  a leading population axis or a Python list.  The replay buffers are external, of a type
  \<open>'b\<close>.  The timing counters and the unused bookkeeping lists of \<^verbatim>\<open>__init__\<close> are left out.

  A Python attribute has no fixed type.  \<^verbatim>\<open>self.buffersize\<close> is the configured list of
  capacities from construction on (\<^verbatim>\<open>self.buffersizes\<close> is its per-member copy); the only
  other assignment to it is an integer, in \<^verbatim>\<open>change_buffersize\<close>.  Python 3 refuses to
  order a list against an integer.
\<close>

datatype pyval = PyInt int | PyList "nat list"

fun py_le :: "pyval \<Rightarrow> int \<Rightarrow> error + bool" where
  "py_le (PyInt n) k = Inr (n \<le> k)"
| "py_le (PyList xs) k = Inl TypeError"

fun py_ge :: "pyval \<Rightarrow> int \<Rightarrow> error + bool" where
  "py_ge (PyInt n) k = Inr (n \<ge> k)"
| "py_ge (PyList xs) k = Inl TypeError"

record 'b agent =
  params :: rainbow_params
  rng :: key
  num_parallel :: nat
  lrs :: "real list"
  lr :: "real list"
  alphas :: "real list"
  buffersizes :: "nat list"
  buffersize :: pyval
  past_obs :: "obs list"
  past_lms :: "bool list list"
  network :: network
  atoms :: "real list list"
  optimizer :: optimizer
  online_params :: "params list"
  trg_params :: "params list"
  opt_state :: "adam_state list"
  train_step :: nat
  experience :: "'b list"
  intermediate_indices :: "nat list list list"
  intermediate_tds :: "real list list list"

text \<open>
  What the agent takes from outside: the random draws, rlax's greedy sampler, the
  learning primitives, the key stream (\<^verbatim>\<open>next(self.rng)\<close> returns a key and advances the
  stream), the network initialiser, and the replay buffer's constructor and operations,
  each of which may fail.
\<close>

record 'b ext =
  ext_uniform :: uniform
  ext_greedy :: "key \<Rightarrow> xreal list list \<Rightarrow> nat list"
  ext_learn :: learn_ext
  next_key :: "key \<Rightarrow> key \<times> key"
  net_init :: "key \<Rightarrow> params"
  new_buffer :: "bool \<Rightarrow> nat \<Rightarrow> nat \<Rightarrow> nat \<Rightarrow> real \<Rightarrow> 'b"
  add_transitions ::
    "'b \<Rightarrow> obs list \<Rightarrow> nat list \<Rightarrow> real list \<Rightarrow> obs list \<Rightarrow> bool list list \<Rightarrow> bool list \<Rightarrow>
     error + 'b"
  sample :: "'b \<Rightarrow> nat \<Rightarrow> error + (transitions \<times> 'b)"
  sample_batch :: "'b \<Rightarrow> nat \<Rightarrow> error + ((nat list \<times> real list \<times> transitions) \<times> 'b)"
  update_priorities :: "'b \<Rightarrow> nat list \<Rightarrow> real list \<Rightarrow> error + 'b"

subsection \<open>Helpers for lists, keys and shapes\<close>

text \<open>\<^verbatim>\<open>[next(self.rng) for _ in range(n)]\<close>.\<close>

fun draw_keys :: "(key \<Rightarrow> key \<times> key) \<Rightarrow> nat \<Rightarrow> key \<Rightarrow> key list \<times> key" where
  "draw_keys nx 0 g = ([], g)"
| "draw_keys nx (Suc n) g =
     (let (k, g') = nx g; (ks, g'') = draw_keys nx n g' in (k # ks, g''))"

text \<open>
  \<^verbatim>\<open>h = onp.roll(h, -n, axis=0); h[-n:, :] = rows\<close> for \<open>n\<close> new rows: the oldest \<open>n\<close> rows
  leave and the new ones are appended.  numpy refuses the assignment when the shapes do
  not broadcast: no new row for a non-empty history, or more new rows than the history
  holds (one row broadcasts into an empty history).
\<close>

definition roll_write :: "'a list \<Rightarrow> 'a list \<Rightarrow> error + 'a list" where
  "roll_write h rows =
     (let n = length rows in
      if n = 0 then (if h = [] then Inr h else Inl ValueError)
      else if n \<le> length h then Inr (drop n h @ rows)
      else if n = 1 then Inr h
      else Inl ValueError)"

text \<open>
  \<^verbatim>\<open>x.reshape(p, l, -1)\<close> of a matrix: the entries in row-major order, cut into \<open>p\<close> blocks
  of \<open>l\<close> rows.  numpy refuses when it cannot infer the last dimension.
\<close>

definition reshape3 :: "nat \<Rightarrow> nat \<Rightarrow> 'a list list \<Rightarrow> error + 'a list list list" where
  "reshape3 p l rows =
     (let flat = concat rows; m = p * l in
      if m = 0 \<or> length flat mod m \<noteq> 0 then Inl ValueError
      else (let k = length flat div m
            in Inr (map (\<lambda>i. map (\<lambda>j. take k (drop ((i * l + j) * k) flat)) [0..<l]) [0..<p])))"

text \<open>\<^verbatim>\<open>x[i*n:(i+1)*n]\<close>; a Python slice past the end is cut short, not refused.\<close>

definition slice_member :: "nat \<Rightarrow> nat \<Rightarrow> 'a list \<Rightarrow> 'a list" where
  "slice_member i n xs = take n (drop (i * n) xs)"

text \<open>
  \<^verbatim>\<open>for i in range(...): self.experience[i].op(...)\<close>: the buffers are updated in place, one
  after the other; the first failure ends the loop.
\<close>

fun for_members :: "(nat \<Rightarrow> 'b \<Rightarrow> error + 'b) \<Rightarrow> nat list \<Rightarrow> 'b list \<Rightarrow> error + 'b list" where
  "for_members f [] bs = Inr bs"
| "for_members f (i # is) bs =
     (if i < length bs then
        (case f i (bs ! i) of
           Inl e \<Rightarrow> Inl e
         | Inr b \<Rightarrow> for_members f is (bs[i := b]))
      else Inl IndexError)"

fun sample_members ::
  "('b \<Rightarrow> error + ('r \<times> 'b)) \<Rightarrow> nat list \<Rightarrow> 'b list \<Rightarrow> error + ('r list \<times> 'b list)" where
  "sample_members f [] bs = Inr ([], bs)"
| "sample_members f (i # is) bs =
     (if i < length bs then
        (case f (bs ! i) of
           Inl e \<Rightarrow> Inl e
         | Inr (r, b) \<Rightarrow>
             (case sample_members f is (bs[i := b]) of
                Inl e \<Rightarrow> Inl e
              | Inr (rs, bs') \<Rightarrow> Inr (r # rs, bs')))
      else Inl IndexError)"

text \<open>\<^verbatim>\<open>jnp.linspace(lo, hi, n)\<close>.\<close>

definition linspace :: "real \<Rightarrow> real \<Rightarrow> nat \<Rightarrow> real list" where
  "linspace lo hi n = map (\<lambda>i. lo + real i * ((hi - lo) / real (n - 1))) [0..<n]"

subsection \<open>Construction\<close>

text \<open>
  \<^verbatim>\<open>DQNAgent.__init__\<close>.  \<open>obs_dim\<close> is \<^verbatim>\<open>observation_spec.shape[1]\<close> and \<open>num_values\<close> is
  \<^verbatim>\<open>action_spec.num_values\<close>.  \<^verbatim>\<open>num_unique_parallel\<close> is the constant 1, so the member
  loops copy the configured lists; the learning rates are stored negated.  Indexing
  \<^verbatim>\<open>self.buffersizes[i]\<close> or \<^verbatim>\<open>self.alphas[i]\<close> past the end of a too short list raises.
\<close>

definition DQNAgent_init ::
  "'b ext \<Rightarrow> network \<Rightarrow> nat \<Rightarrow> nat \<Rightarrow> nat list \<Rightarrow> real list \<Rightarrow> real list \<Rightarrow> rainbow_params \<Rightarrow>
   error + 'b agent" where
  "DQNAgent_init E net obs_dim num_values buffersizes_arg lrs_arg alphas_arg ps =
     (let n = 1 * length lrs_arg;
          (rng_init, g) = draw_keys (next_key E) n (seed ps);
          trg = map (net_init E) rng_init;
          opt = custom_adam (9 / 10) (999 / 1000) (3125 / 100000000) 0
      in if length buffersizes_arg < n \<or> (use_priority ps \<and> length alphas_arg < n)
         then Inl IndexError
         else Inr \<lparr>params = ps, rng = g, num_parallel = n, lrs = lrs_arg,
                   lr = map uminus lrs_arg, alphas = alphas_arg, buffersizes = buffersizes_arg,
                   buffersize = PyList buffersizes_arg,
                   past_obs = replicate (past_obs_size ps) (replicate obs_dim 0),
                   past_lms = replicate (past_obs_size ps) (replicate num_values False),
                   network = net,
                   atoms = replicate num_values (linspace (- atom_vmax ps) (atom_vmax ps) (n_atoms ps)),
                   optimizer = opt, online_params = trg, trg_params = trg,
                   opt_state = map (opt_init opt) trg, train_step = 0,
                   experience =
                     map (\<lambda>i. new_buffer E (use_priority ps) (obs_dim * history_size ps) num_values
                                 (buffersizes_arg ! i) (if use_priority ps then alphas_arg ! i else 0))
                       [0..<n],
                   intermediate_indices = [], intermediate_tds = []\<rparr>)"

subsection \<open>Acting\<close>

text \<open>
  An observation batch is the pair of \<^verbatim>\<open>observations[1][0]\<close> (the observation vectors) and
  \<^verbatim>\<open>observations[1][1]\<close> (the legal-move masks).  \<^verbatim>\<open>jax.vmap\<close> over the population axis
  runs the policy once per member.  \<^verbatim>\<open>int(n / self.num_parallel)\<close> of two sizes is their
  integer quotient, and raises for a population of size zero.  An exception ends the
  training process, so a failing call returns the error alone.
\<close>

definition explore ::
  "'b ext \<Rightarrow> 'b agent \<Rightarrow> obs list \<times> bool list list \<Rightarrow> error + (nat list \<times> 'b agent)" where
  "explore E a observations =
     (case roll_write (past_obs a) (fst observations) of
        Inl e \<Rightarrow> Inl e
      | Inr po \<Rightarrow>
     (case roll_write (past_lms a) (snd observations) of
        Inl e \<Rightarrow> Inl e
      | Inr pl \<Rightarrow>
     (if num_parallel a = 0 then Inl ZeroDivisionError
      else
     (let obs_len = length (fst observations) div num_parallel a in
      case reshape3 (num_parallel a) obs_len (fst observations) of
        Inl e \<Rightarrow> Inl e
      | Inr observations_ \<Rightarrow>
     (case reshape3 (num_parallel a) obs_len (snd observations) of
        Inl e \<Rightarrow> Inl e
      | Inr legal_actions \<Rightarrow>
     (let (key_rng, g) = draw_keys (next_key E) (num_parallel a) (rng a);
          out = map (\<lambda>i. policy (ext_uniform E) (network a) (use_distribution (params a))
                            (use_boltzmann_exploration (params a)) (atoms a) (online_params a ! i)
                            (epsilon (params a) (train_step a)) (tau (params a) (train_step a))
                            (key_rng ! i) (observations_ ! i) (legal_actions ! i))
                  [0..<num_parallel a];
          actions = concat (map snd out)
      in Inr (actions, a\<lparr>past_obs := po, past_lms := pl, rng := g\<rparr>)))))))"

definition exploit ::
  "'b ext \<Rightarrow> 'b agent \<Rightarrow> obs list \<times> bool list list \<Rightarrow> bool \<Rightarrow> error + (nat list \<times> 'b agent)" where
  "exploit E a observations eval =
     (case (if eval then Inr (past_obs a) else roll_write (past_obs a) (fst observations)) of
        Inl e \<Rightarrow> Inl e
      | Inr po \<Rightarrow>
     (case (if eval then Inr (past_lms a) else roll_write (past_lms a) (snd observations)) of
        Inl e \<Rightarrow> Inl e
      | Inr pl \<Rightarrow>
     (if num_parallel a = 0 then Inl ZeroDivisionError
      else
     (let obs_len = length (fst observations) div num_parallel a in
      case reshape3 (num_parallel a) obs_len (fst observations) of
        Inl e \<Rightarrow> Inl e
      | Inr observations_ \<Rightarrow>
     (case reshape3 (num_parallel a) obs_len (snd observations) of
        Inl e \<Rightarrow> Inl e
      | Inr legal_actions \<Rightarrow>
     (let (key_rng, g) = draw_keys (next_key E) (num_parallel a) (rng a);
          actions = map (\<lambda>i. eval_policy (ext_greedy E) (network a) (use_distribution (params a))
                                (atoms a) (online_params a ! i) (key_rng ! i) (observations_ ! i)
                                (legal_actions ! i))
                      [0..<num_parallel a]
      in Inr (concat actions, a\<lparr>past_obs := po, past_lms := pl, rng := g\<rparr>)))))))"

definition add_experience ::
  "'b ext \<Rightarrow> 'b agent \<Rightarrow> obs list \<times> bool list list \<Rightarrow> nat list \<Rightarrow> real list \<Rightarrow>
   obs list \<times> bool list list \<Rightarrow> bool list \<Rightarrow> error + 'b agent" where
  "add_experience E a observations_tm1 actions_tm1 rewards_t observations_t term_t =
     (let obs_vec_tm1 = fst observations_tm1;
          obs_vec_t = fst observations_t;
          legal_actions_t = snd observations_t
      in if num_parallel a = 0 then Inl ZeroDivisionError
         else
        (let obs_len = length obs_vec_tm1 div num_parallel a in
         case for_members
                (\<lambda>i b. add_transitions E b
                          (slice_member i obs_len obs_vec_tm1) (slice_member i obs_len actions_tm1)
                          (slice_member i obs_len rewards_t) (slice_member i obs_len obs_vec_t)
                          (slice_member i obs_len legal_actions_t) (slice_member i obs_len term_t))
                [0..<num_parallel a] (experience a) of
           Inl e \<Rightarrow> Inl e
         | Inr bs \<Rightarrow> Inr (a\<lparr>experience := bs\<rparr>)))"

subsection \<open>Training\<close>

text \<open>
  The batches of one training step: per member the sampled indices, the priorities and
  the transitions.  Prioritized sampling reshapes the priorities to
  \<^verbatim>\<open>(num_parallel, train_batch_size)\<close>, which numpy refuses for any other size; uniform
  sampling reports priorities of one.  With no member, \<^verbatim>\<open>c[0]\<close> raises in the first
  branch and \<^verbatim>\<open>transitions\<close> is never bound in the second.
\<close>

definition sample_population ::
  "'b ext \<Rightarrow> 'b agent \<Rightarrow>
   error + (nat list list \<times> real list list \<times> transitions list \<times> 'b list)" where
  "sample_population E a =
     (if use_priority (params a) then
        (case sample_members (\<lambda>b. sample_batch E b (train_batch_size (params a)))
                [0..<num_parallel a] (experience a) of
           Inl e \<Rightarrow> Inl e
         | Inr (rs, bs) \<Rightarrow>
             (let sample_indices = map fst rs;
                  prios = map (\<lambda>r. fst (snd r)) rs;
                  c = map (\<lambda>r. snd (snd r)) rs
              in if \<exists>p \<in> set prios. length p \<noteq> train_batch_size (params a) then Inl ValueError
                 else if c = [] then Inl IndexError
                 else Inr (sample_indices, prios, c, bs)))
      else
        (case sample_members (\<lambda>b. sample E b (train_batch_size (params a)))
                [0..<num_parallel a] (experience a) of
           Inl e \<Rightarrow> Inl e
         | Inr (c, bs) \<Rightarrow>
             if c = [] then Inl NameError
             else Inr ([], replicate (num_parallel a) (replicate (train_batch_size (params a)) 1),
                       c, bs)))"

text \<open>\<^verbatim>\<open>self.update_q_parallel\<close>: \<^verbatim>\<open>update_q\<close> vmapped over the population axis.\<close>

definition update_q_parallel ::
  "learn_ext \<Rightarrow> network \<Rightarrow> real list list \<Rightarrow> optimizer \<Rightarrow> nat \<Rightarrow> real list \<Rightarrow> params list \<Rightarrow>
   params list \<Rightarrow> adam_state list \<Rightarrow> transitions list \<Rightarrow> real \<Rightarrow> real list list \<Rightarrow> real \<Rightarrow> bool \<Rightarrow>
   bool \<Rightarrow> key list \<Rightarrow> key list \<Rightarrow> key list \<Rightarrow> (params \<times> adam_state \<times> real list) list" where
  "update_q_parallel X net ats opt n lr_n online_n trg_n opt_state_n transitions_n discount_t
       prios_n beta dq cat keys_online keys_target keys_sel =
     map (\<lambda>i. update_q X net ats opt (lr_n ! i) (online_n ! i) (trg_n ! i) (opt_state_n ! i)
                 (transitions_n ! i) discount_t (prios_n ! i) beta dq cat
                 (keys_online ! i) (keys_target ! i) (keys_sel ! i))
       [0..<n]"

definition update :: "'b ext \<Rightarrow> 'b agent \<Rightarrow> error + 'b agent" where
  "update E a =
     (if \<not> fixed_weights (params a) then
        (let (keys_online, g1) = draw_keys (next_key E) (num_parallel a) (rng a);
             (keys_target, g2) = draw_keys (next_key E) (num_parallel a) g1;
             (keys_sel, g3) = draw_keys (next_key E) (num_parallel a) g2
         in case sample_population E a of
              Inl e \<Rightarrow> Inl e
            | Inr (sample_indices, prios, transitions_n, bs) \<Rightarrow>
                (let out = update_q_parallel (ext_learn E) (network a) (atoms a) (optimizer a)
                             (num_parallel a) (lr a) (online_params a) (trg_params a) (opt_state a)
                             transitions_n (discount (params a)) prios
                             (beta_is (params a) (train_step a)) (use_double_q (params a))
                             (use_distribution (params a)) keys_online keys_target keys_sel;
                     tds = map (\<lambda>r. snd (snd r)) out;
                     a1 = a\<lparr>rng := g3, experience := bs, online_params := map fst out,
                            opt_state := map (\<lambda>r. fst (snd r)) out\<rparr>;
                     a2 = (if use_priority (params a)
                           then a1\<lparr>intermediate_indices := intermediate_indices a1 @ [sample_indices],
                                   intermediate_tds := intermediate_tds a1 @ [tds]\<rparr>
                           else a1)
                 in if target_update_period (params a) = 0 then Inl ZeroDivisionError
                    else
                   (let a3 = (if train_step a2 mod target_update_period (params a) = 0
                              then a2\<lparr>trg_params := online_params a2\<rparr> else a2)
                    in Inr (a3\<lparr>train_step := train_step a3 + 1\<rparr>))))
      else Inr a)"

subsection \<open>The deferred priority write-back\<close>

text \<open>\<^verbatim>\<open>xs[:-2]\<close> and \<^verbatim>\<open>xs[-2:]\<close>.\<close>

definition all_but_last_two :: "'a list \<Rightarrow> 'a list" where
  "all_but_last_two xs = take (length xs - 2) xs"

definition last_two :: "'a list \<Rightarrow> 'a list" where
  "last_two xs = drop (length xs - 2) xs"

text \<open>
  \<^verbatim>\<open>for i, subset in enumerate(elem): indices[i].extend(subset)\<close>; \<^verbatim>\<open>indices[i]\<close> raises
  past the end of \<^verbatim>\<open>indices\<close>.
\<close>

fun extend_indices :: "nat \<Rightarrow> nat list list \<Rightarrow> nat list list \<Rightarrow> error + nat list list" where
  "extend_indices i [] indices = Inr indices"
| "extend_indices i (sub # rest) indices =
     (if i < length indices
      then extend_indices (Suc i) rest (indices[i := indices ! i @ sub])
      else Inl IndexError)"

fun collect_indices :: "nat list list list \<Rightarrow> nat list list \<Rightarrow> error + nat list list" where
  "collect_indices [] indices = Inr indices"
| "collect_indices (elem # rest) indices =
     (case extend_indices 0 elem indices of
        Inl e \<Rightarrow> Inl e
      | Inr indices' \<Rightarrow> collect_indices rest indices')"

text \<open>
  \<^verbatim>\<open>onp.hstack\<close> of a list of matrices joins them row by row.  It raises for an empty
  list (numpy needs at least one array to concatenate) and for matrices that differ in
  their number of rows.
\<close>

definition hstack :: "real list list list \<Rightarrow> error + real list list" where
  "hstack ms =
     (case ms of
        [] \<Rightarrow> Inl ValueError
      | m # rest \<Rightarrow>
          if \<exists>m' \<in> set rest. length m' \<noteq> length m then Inl ValueError
          else Inr (map (\<lambda>i. concat (map (\<lambda>m'. m' ! i) ms)) [0..<length m]))"

definition update_prio :: "'b ext \<Rightarrow> 'b agent \<Rightarrow> error + 'b agent" where
  "update_prio E a =
     (if use_priority (params a) then
        (case collect_indices (all_but_last_two (intermediate_indices a))
                (replicate (num_parallel a) []) of
           Inl e \<Rightarrow> Inl e
         | Inr indices \<Rightarrow>
        (let tds_list = all_but_last_two (intermediate_tds a) in
         case hstack tds_list of
           Inl e \<Rightarrow> Inl e
         | Inr tds_np \<Rightarrow>
        (case for_members
                (\<lambda>i buffer. if i < length indices \<and> i < length tds_np
                             then update_priorities E buffer (indices ! i) (tds_np ! i)
                             else Inl IndexError)
                [0..<length (experience a)] (experience a) of
           Inl e \<Rightarrow> Inl e
         | Inr bs \<Rightarrow>
             Inr (a\<lparr>experience := bs,
                    intermediate_indices := last_two (intermediate_indices a),
                    intermediate_tds := last_two (intermediate_tds a)\<rparr>))))
      else Inr a)"

subsection \<open>The population-based-training hook \<^verbatim>\<open>change_buffersize\<close>\<close>

text \<open>
  The hook compares \<^verbatim>\<open>self.buffersize\<close> with 512 and with \<open>2^20\<close>, which raises when the
  attribute holds a list.  The two-element list of choices is built before
  \<^verbatim>\<open>random.choice\<close> picks from it, so a factor of zero raises in the two branches that
  hold \<^verbatim>\<open>1 / buffer_factor\<close>.  The hook then assigns
  \<^verbatim>\<open>int(buffersize_survivor * random.choice(choices))\<close> to \<^verbatim>\<open>self.buffersize\<close> and calls
  \<^verbatim>\<open>self.experience.change_size\<close>.  \<^verbatim>\<open>self.experience\<close> is the list of the members'
  buffers, and a list has no attribute \<^verbatim>\<open>change_size\<close>: the call raises, and the capacity
  just assigned is lost with the failing call.
\<close>

definition buffersize_choices :: "pyval \<Rightarrow> real \<Rightarrow> error + real \<times> real" where
  "buffersize_choices cap buffer_factor =
     (case py_le cap 512 of
        Inl e \<Rightarrow> Inl e
      | Inr small \<Rightarrow>
          if small then Inr (buffer_factor, 1)
          else
            (case py_ge cap (2 ^ 20) of
               Inl e \<Rightarrow> Inl e
             | Inr large \<Rightarrow>
                 if buffer_factor = 0 then Inl ZeroDivisionError
                 else if large then Inr (1, 1 / buffer_factor)
                 else Inr (buffer_factor, 1 / buffer_factor)))"

definition change_buffersize :: "'b agent \<Rightarrow> real \<Rightarrow> int \<Rightarrow> error + 'b agent" where
  "change_buffersize a buffer_factor buffersize_survivor =
     (case buffersize_choices (buffersize a) buffer_factor of
        Inl e \<Rightarrow> Inl e
      | Inr choices \<Rightarrow> Inl AttributeError)"

section \<open>Reference notions and concrete inputs\<close>

text \<open>
  The expectation of a categorical distribution over the atom support, as the
  specification words the Q-value of the distributional mode: the sum over the atoms of
  probability times atom value.
\<close>

definition expected_value :: "real list \<Rightarrow> real list \<Rightarrow> real" where
  "expected_value probs ats = sum_list (map2 (*) probs ats)"

text \<open>A network whose every output is zero, and a key whose uniform draws are all 0.\<close>

definition zero_network :: "nat \<Rightarrow> nat \<Rightarrow> network" where
  "zero_network num_actions num_atoms =
     \<lparr>apply_q = (\<lambda>ps k os. map (\<lambda>_. replicate num_actions 0) os),
      apply_logits = (\<lambda>ps k os. map (\<lambda>_. replicate num_actions (replicate num_atoms 0)) os)\<rparr>"

definition zero_draws :: uniform where
  "zero_draws k n = replicate n 0"


text \<open>
  Concrete inputs.  The central difference with step 1 is the exact gradient of a
  quadratic function; the scalar losses are quadratic in the parameters of a network
  whose Q-value is the sum of its parameters.  The cross-entropy is that of the labels
  against the softmax of the logits.
\<close>

definition central_difference :: "(params \<Rightarrow> real) \<Rightarrow> params \<Rightarrow> real list" where
  "central_difference f ps =
     map (\<lambda>i. (f (ps[i := ps ! i + 1]) - f (ps[i := ps ! i - 1])) / 2) [0..<length ps]"

definition quadratic_learn :: learn_ext where
  "quadratic_learn =
     \<lparr>jax_grad = central_difference,
      categorical_l2_project = (\<lambda>z_p probs z_q. probs),
      categorical_cross_entropy = (\<lambda>labels logits. - sum_list (map2 (*) labels (map ln (softmax logits))))\<rparr>"

definition linear_network :: network where
  "linear_network =
     \<lparr>apply_q = (\<lambda>ps k os. map (\<lambda>_. [sum_list ps]) os),
      apply_logits = (\<lambda>ps k os. map (\<lambda>_. [ps]) os)\<rparr>"

definition terminal_batch :: "nat \<Rightarrow> real \<Rightarrow> transitions" where
  "terminal_batch n r =
     \<lparr>observation_tm1 = replicate n [0], action_tm1 = replicate n 0, reward_t = replicate n r,
      observation_t = replicate n [0], legal_moves_t = replicate n [True],
      terminal_t = replicate n True\<rparr>"


text \<open>
  A population of one member with learning rate \<open>1/2\<close>, target period 2 and batches of one
  terminal transition of reward \<open>-1\<close>, drawn from a buffer that always returns the same
  batch; \<open>small_agent\<close> is what \<^verbatim>\<open>__init__\<close> builds from these.
\<close>

definition fixed_batch_ext :: "unit ext" where
  "fixed_batch_ext =
     \<lparr>ext_uniform = (\<lambda>k n. replicate n (1 / 2)),
      ext_greedy = (\<lambda>k qs. map (\<lambda>_. 0) qs),
      ext_learn = quadratic_learn,
      next_key = (\<lambda>g. (g, Suc g)),
      net_init = (\<lambda>k. [0]),
      new_buffer = (\<lambda>prio obs_len num_values capacity alpha. ()),
      add_transitions = (\<lambda>b o1 a1 r1 o2 l2 t2. Inr b),
      sample = (\<lambda>b n. Inr (terminal_batch n (- 1), b)),
      sample_batch = (\<lambda>b n. Inr (([0..<n], replicate n 1, terminal_batch n (- 1)), b)),
      update_priorities = (\<lambda>b idx ps. Inr b)\<rparr>"

definition small_params :: rainbow_params where
  "small_params =
     \<lparr>use_distribution = False, use_double_q = False, use_boltzmann_exploration = False,
      use_priority = True, fixed_weights = False, epsilon = (\<lambda>ts. 0), tau = (\<lambda>ts. 1),
      beta_is = (\<lambda>ts. 1), discount = 99 / 100, target_update_period = 2, train_batch_size = 1,
      past_obs_size = 1, history_size = 1, n_atoms = 1, atom_vmax = 1, seed = 0\<rparr>"

definition small_agent :: "unit agent" where
  "small_agent =
     \<lparr>params = small_params, rng = 1, num_parallel = 1, lrs = [1 / 2], lr = [- (1 / 2)],
      alphas = [1], buffersizes = [4], buffersize = PyList [4], past_obs = [[0]],
      past_lms = [[False]],
      network = linear_network, atoms = [[- 1]],
      optimizer = custom_adam (9 / 10) (999 / 1000) (1 / 32000) 0,
      online_params = [[0]], trg_params = [[0]],
      opt_state = [\<lparr>count = 0, mu = [0], nu = [0]\<rparr>], train_step = 0,
      experience = [()], intermediate_indices = [], intermediate_tds = []\<rparr>"

text \<open>
  Two agents that differ at most in the contents of the two history buffers: the buffers
  have the same shape, and every other field is the same.
\<close>

definition same_but_history :: "'b agent \<Rightarrow> 'b agent \<Rightarrow> bool" where
  "same_but_history a b =
     (length (past_obs a) = length (past_obs b) \<and> length (past_lms a) = length (past_lms b) \<and>
      a\<lparr>past_obs := past_obs b, past_lms := past_lms b\<rparr> = b)"

text \<open>
  A mask with exactly one legal action, the action \<open>a\<close>, followed by \<open>b\<close> illegal ones, and
  the distribution that puts all its mass on that action.
\<close>

definition one_hot :: "nat \<Rightarrow> nat \<Rightarrow> real list" where
  "one_hot a b = replicate a 0 @ 1 # replicate b 0"

definition single_legal :: "nat \<Rightarrow> nat \<Rightarrow> bool list" where
  "single_legal a b = replicate a False @ True # replicate b False"

section \<open>Properties\<close>

subsection \<open>Sampling and the policies\<close>

lemmas sample_defs = categorical_sample_def categorical_sample_row_def cumsum_def argmin_bool_def
  first_false_def

text \<open>
  Claim C6 at the probability vector \<open>[0, 1]\<close> and a key whose draw is 0, a value of the
  half-open interval \<open>[0, 0.999)\<close>: the comparison \<^verbatim>\<open>rnds > cpi\<close> is false already at
  index 0, whose cumulative probability is 0, so \<^verbatim>\<open>_categorical_sample\<close> returns action 0,
  an action of probability zero.
\<close>

theorem categorical_sample_zero_draw:
  "categorical_sample_row 0 [0, 1] = 0 \<and> [0, 1 :: real] ! 0 = 0 \<and>
   categorical_sample zero_draws k [[0, 1]] = [0]"
  by (simp add: sample_defs zero_draws_def)

text \<open>
  Claim C7 at the mask \<open>[False, True]\<close>, whose single legal action is action 1, and a key
  whose draw is 0: \<^verbatim>\<open>policy\<close> returns the illegal action 0, under the epsilon-greedy
  configuration for every epsilon and under the Boltzmann configuration at temperature 1.
\<close>

theorem policy_single_legal_zero_draw:
  "snd (policy zero_draws (zero_network 2 1) False False ats ps eps t k [ob] [[False, True]]) = [0] \<and>
   snd (policy zero_draws (zero_network 2 1) False True ats ps eps 1 k [ob] [[False, True]]) = [0]"
  by (simp add: policy_def zero_network_def mask_illegal_def legal_epsilon_greedy_sample_def
      legal_softmax_sample_def apply_legal_boltzmann_def apply_legal_boltzmann_row_def
      argmax_with_random_tie_breaking_def argmax_with_random_tie_breaking_row_def xmaximum_def
      mix_with_legal_uniform_def mix_with_legal_uniform_row_def sample_defs zero_draws_def Let_def
      numeral_2_eq_2)

text \<open>
  The Q-value of the distributional mode is the expectation divided by the number of
  atoms: \<^verbatim>\<open>jnp.mean\<close> averages the products where the expectation sums them.
\<close>

lemma dist_q_value_scaled:
  "dist_q_value probs ats = expected_value probs ats / real (min (length probs) (length ats))"
  by (simp add: dist_q_value_def expected_value_def mean_def)

text \<open>
  Claim C1 at one action with the two atoms \<open>-1\<close> and \<open>3\<close> and equal logits: the
  distribution puts one half on each atom, so its expectation is 1, while \<^verbatim>\<open>policy\<close>
  returns the Q-value one half and \<^verbatim>\<open>eval_policy\<close> hands the same value to the greedy
  sampler.
\<close>

theorem distributional_q_value_is_mean_of_products:
  "fst (policy u (zero_network 1 2) True sm [[-1, 3]] ps eps t k [ob] [[True]]) = [[Fin (1 / 2)]] \<and>
   eval_policy g (zero_network 1 2) True [[-1, 3]] ps k [ob] [[True]] = g k [[Fin (1 / 2)]] \<and>
   expected_value (softmax [0, 0]) [-1, 3] = 1"
  by (simp add: policy_def eval_policy_def zero_network_def mask_illegal_def dist_q_value_def
      softmax_def mean_def expected_value_def Let_def numeral_2_eq_2)

subsection \<open>\<^verbatim>\<open>update_prio\<close>\<close>

text \<open>
  Claim C4 at an agent with prioritized replay whose queues hold one or two entries:
  nothing is left to flush, \<^verbatim>\<open>onp.hstack\<close> receives the empty list, and the call raises
  instead of returning with the queues as they were.
\<close>

theorem update_prio_short_queue_raises:
  "update_prio E (a\<lparr>params := (params a)\<lparr>use_priority := True\<rparr>,
                     intermediate_indices := [i1], intermediate_tds := [t1]\<rparr>) = Inl ValueError \<and>
   update_prio E (a\<lparr>params := (params a)\<lparr>use_priority := True\<rparr>,
                     intermediate_indices := [i1, i2], intermediate_tds := [t1, t2]\<rparr>) = Inl ValueError"
  by (simp add: update_prio_def all_but_last_two_def hstack_def)

subsection \<open>The losses of \<^verbatim>\<open>update_q\<close>\<close>

lemma zero_terminal_discount_all:
  assumes "\<forall>t \<in> set term_t. t"
  shows "zero_terminal_discount term_t d = replicate (length term_t) 0"
  using assms by (induction term_t) (auto simp: zero_terminal_discount_def)

lemma q_td_terminal:
  assumes "\<forall>t \<in> set term_t. t" and "length term_t = length r_t"
  shows "q_td X net ats k1 k2 k3 online trg obs_tm1 a_tm1 r_t obs_t term_t d =
       map (\<lambda>i. (r_t ! i - jidx (apply_q net online k1 obs_tm1 ! i) (a_tm1 ! i))\<^sup>2)
         [0..<length r_t]"
  unfolding q_td_def Let_def zero_terminal_discount_all [OF assms(1)] assms(2)
  by (simp add: rlax_q_learning_def)

lemma double_q_td_terminal:
  assumes "\<forall>t \<in> set term_t. t" and "length term_t = length r_t"
  shows "double_q_td X net ats k1 k2 k3 online trg obs_tm1 a_tm1 r_t obs_t term_t d =
       map (\<lambda>i. (r_t ! i - jidx (apply_q net online k1 obs_tm1 ! i) (a_tm1 ! i))\<^sup>2)
         [0..<length r_t]"
  unfolding double_q_td_def Let_def zero_terminal_discount_all [OF assms(1)] assms(2)
  by (simp add: rlax_double_q_learning_def)

lemma categorical_q_td_terminal:
  assumes "\<forall>t \<in> set term_t. t" and "length term_t = length r_t"
  shows "categorical_q_td X net ats k1 k2 k3 online trg obs_tm1 a_tm1 r_t obs_t term_t d =
       map (\<lambda>i. categorical_cross_entropy X
                   (categorical_l2_project X (replicate (length (ats ! 0)) (r_t ! i))
                      (jidx (map softmax (apply_logits net trg k2 obs_t ! i))
                         (argmax (map (\<lambda>p. sum_list (map2 (*) p (ats ! 0)))
                                    (map softmax (apply_logits net trg k2 obs_t ! i)))))
                      (ats ! 0))
                   (jidx (apply_logits net online k1 obs_tm1 ! i) (a_tm1 ! i)))
         [0..<length r_t]"
  unfolding categorical_q_td_def Let_def zero_terminal_discount_all [OF assms(1)] assms(2)
  by (simp add: rlax_categorical_q_learning_def Let_def map_replicate_const)

lemma categorical_double_q_td_terminal:
  assumes "\<forall>t \<in> set term_t. t" and "length term_t = length r_t"
  shows "categorical_double_q_td X net ats k1 k2 k3 online trg obs_tm1 a_tm1 r_t obs_t term_t d =
       map (\<lambda>i. categorical_cross_entropy X
                   (categorical_l2_project X (replicate (length (ats ! 0)) (r_t ! i))
                      (softmax (jidx (apply_logits net trg k2 obs_t ! i)
                         (argmax (map (\<lambda>row. map2 dist_q_value (map softmax row) ats)
                                    (apply_logits net online k3 obs_t) ! i))))
                      (ats ! 0))
                   (jidx (apply_logits net online k1 obs_tm1 ! i) (a_tm1 ! i)))
         [0..<length r_t]"
  unfolding categorical_double_q_td_def Let_def zero_terminal_discount_all [OF assms(1)] assms(2)
  by (simp add: rlax_categorical_double_q_learning_def Let_def map_replicate_const)

text \<open>
  Claim C8.  In a batch whose transitions are all terminal the discount of every
  transition is zero, in all four variants: the scalar errors are \<open>(r - q(a))\<^sup>2\<close>, the
  target \<open>r + discount * v\<close> being the reward alone, and the categorical errors project a
  target support whose atoms all equal the reward.
\<close>

theorem terminal_batch_targets_are_rewards:
  assumes "\<forall>t \<in> set term_t. t" and "length term_t = length r_t"
  shows
    "q_td X net ats k1 k2 k3 online trg obs_tm1 a_tm1 r_t obs_t term_t d =
       map (\<lambda>i. (r_t ! i - jidx (apply_q net online k1 obs_tm1 ! i) (a_tm1 ! i))\<^sup>2)
         [0..<length r_t] \<and>
     double_q_td X net ats k1 k2 k3 online trg obs_tm1 a_tm1 r_t obs_t term_t d =
       map (\<lambda>i. (r_t ! i - jidx (apply_q net online k1 obs_tm1 ! i) (a_tm1 ! i))\<^sup>2)
         [0..<length r_t] \<and>
     categorical_q_td X net ats k1 k2 k3 online trg obs_tm1 a_tm1 r_t obs_t term_t d =
       map (\<lambda>i. categorical_cross_entropy X
                   (categorical_l2_project X (replicate (length (ats ! 0)) (r_t ! i))
                      (jidx (map softmax (apply_logits net trg k2 obs_t ! i))
                         (argmax (map (\<lambda>p. sum_list (map2 (*) p (ats ! 0)))
                                    (map softmax (apply_logits net trg k2 obs_t ! i)))))
                      (ats ! 0))
                   (jidx (apply_logits net online k1 obs_tm1 ! i) (a_tm1 ! i)))
         [0..<length r_t] \<and>
     categorical_double_q_td X net ats k1 k2 k3 online trg obs_tm1 a_tm1 r_t obs_t term_t d =
       map (\<lambda>i. categorical_cross_entropy X
                   (categorical_l2_project X (replicate (length (ats ! 0)) (r_t ! i))
                      (softmax (jidx (apply_logits net trg k2 obs_t ! i)
                         (argmax (map (\<lambda>row. map2 dist_q_value (map softmax row) ats)
                                    (apply_logits net online k3 obs_t) ! i))))
                      (ats ! 0))
                   (jidx (apply_logits net online k1 obs_tm1 ! i) (a_tm1 ! i)))
         [0..<length r_t]"
  using q_td_terminal [OF assms] double_q_td_terminal [OF assms]
    categorical_q_td_terminal [OF assms] categorical_double_q_td_terminal [OF assms]
  by simp

lemmas td_defs = q_td_def double_q_td_def categorical_q_td_def categorical_double_q_td_def
  zero_terminal_discount_def rlax_q_learning_def rlax_double_q_learning_def
  rlax_categorical_q_learning_def rlax_categorical_double_q_learning_def

lemmas concrete_defs = quadratic_learn_def linear_network_def zero_network_def
     terminal_batch_def central_difference_def custom_adam_def scale_by_adam_def scale_by_adam_init_def
     apply_lr_def apply_updates_def mean_def rmaximum_def jidx_def softmax_def dist_q_value_def

text \<open>
  The theorem of C8 at a batch of two terminal transitions with rewards 1 and 2 and a
  network whose Q-value is 3: the squared errors are \<open>(1 - 3)\<^sup>2\<close> and \<open>(2 - 3)\<^sup>2\<close>.
\<close>

theorem terminal_batch_targets_are_rewards_witness:
  "list_all (\<lambda>t. t) [True, True] \<and> length [True, True] = length [1, 2 :: real] \<and>
   q_td quadratic_learn linear_network [[0]] 0 0 0 [3] [5] [[0], [0]] [0, 0] [1, 2] [[0], [0]]
     [True, True] (99 / 100) = [4, 1] \<and>
   double_q_td quadratic_learn linear_network [[0]] 0 0 0 [3] [5] [[0], [0]] [0, 0] [1, 2] [[0], [0]]
     [True, True] (99 / 100) = [4, 1]"
  using terminal_batch_targets_are_rewards
    [where term_t = "[True, True]" and r_t = "[1, 2]" and X = quadratic_learn
       and net = linear_network and ats = "[[0]]" and ?k1.0 = 0 and ?k2.0 = 0 and ?k3.0 = 0
       and online = "[3]" and trg = "[5]" and ?obs_tm1.0 = "[[0], [0]]" and ?a_tm1.0 = "[0, 0]"
       and obs_t = "[[0], [0]]" and d = "99 / 100"]
  by (simp add: linear_network_def jidx_def upt_rec numeral_2_eq_2)

subsection \<open>The new priorities\<close>

lemma new_prios_eq:
  "snd (snd (update_q X net ats opt l online trg st tr d prios beta dq cat k1 k2 k3)) =
   snd (loss X net ats beta dq cat k1 k2 k3 online trg (observation_tm1 tr) (action_tm1 tr)
          (reward_t tr) (observation_t tr) (terminal_t tr) d prios)"
  by (simp add: update_q_def Let_def split: prod.splits)

lemma loss_prios_nonneg:
  "p \<in> set (snd (loss X net ats beta dq cat k1 k2 k3 online trg o1 a1 r1 o2 t1 d prios)) \<Longrightarrow> 0 \<le> p"
  by (auto simp: loss_def Let_def q_td_def double_q_td_def split: if_splits)

text \<open>
  Claim C5, as the code has it.  The new priorities that \<^verbatim>\<open>update_q\<close> returns are the
  absolute categorical errors or the square roots of the squared scalar errors, and
  nothing is added to them: every one is non-negative.
\<close>

theorem new_priorities_nonnegative:
  "\<forall>p \<in> set (snd (snd (update_q X net ats opt l online trg st tr d prios beta dq cat k1 k2 k3))).
     0 \<le> p"
  unfolding new_prios_eq using loss_prios_nonneg by blast

text \<open>
  Claim C5 as stated fails: a terminal transition of reward 0 whose Q-value is 0 has the
  error 0, and the new priority is 0 in the scalar and in the categorical variant.
\<close>

theorem new_priority_can_be_zero:
  "snd (snd (update_q quadratic_learn (zero_network 2 1) [[0], [0]]
               (custom_adam (9 / 10) (999 / 1000) (1 / 32000) 0) (- (1 / 2)) [0] [0]
               (scale_by_adam_init [0]) (terminal_batch 1 0) (99 / 100) [1] 1 False False 0 0 0)) = [0] \<and>
   snd (snd (update_q quadratic_learn (zero_network 2 1) [[0], [0]]
               (custom_adam (9 / 10) (999 / 1000) (1 / 32000) 0) (- (1 / 2)) [0] [0]
               (scale_by_adam_init [0]) (terminal_batch 1 0) (99 / 100) [1] 1 True True 0 0 0)) = [0]"
  by (simp add: new_prios_eq loss_def td_defs concrete_defs Let_def)

text \<open>
  The theorem of C5 at a terminal transition of reward \<open>-1\<close> and Q-value 0: the new
  priority is 1.
\<close>

theorem new_priorities_nonnegative_witness:
  "snd (snd (update_q quadratic_learn linear_network []
               (custom_adam (9 / 10) (999 / 1000) (1 / 32000) 0) (- 2) [0] [0]
               (scale_by_adam_init [0]) (terminal_batch 1 (- 1)) (99 / 100) [1] 1 False False 0 0 0))
     = [1] \<and> (0 :: real) \<le> 1"
  using new_priorities_nonnegative [of quadratic_learn linear_network "[]"
      "custom_adam (9 / 10) (999 / 1000) (1 / 32000) 0" "- 2" "[0]" "[0]" "scale_by_adam_init [0]"
      "terminal_batch 1 (- 1)" "99 / 100" "[1]" 1 False False 0 0 0]
  by (simp add: new_prios_eq loss_def td_defs concrete_defs Let_def power2_eq_square)

subsection \<open>Training steps\<close>


lemma draw1: "draw_keys nx (Suc 0) g = ([fst (nx g)], snd (nx g))"
  by (simp add: case_prod_beta Let_def)

lemma init_small:
  "DQNAgent_init fixed_batch_ext linear_network 1 1 [4] [1 / 2] [1] small_params = Inr small_agent"
  by (simp add: DQNAgent_init_def fixed_batch_ext_def small_params_def draw1 Let_def linspace_def
      custom_adam_def scale_by_adam_init_def small_agent_def)



lemma update_frozen: "fixed_weights (params a) \<Longrightarrow> update E a = Inr a"
  by (simp add: update_def)









subsection \<open>The target network\<close>




subsection \<open>The history buffers\<close>

lemma same_but_historyE:
  assumes "same_but_history a b"
  obtains x y where "b = a\<lparr>past_obs := x, past_lms := y\<rparr>"
    and "length x = length (past_obs a)" and "length y = length (past_lms a)"
  using assms unfolding same_but_history_def by metis

lemma same_but_history_update:
  "length x = length x' \<Longrightarrow> length y = length y' \<Longrightarrow>
   same_but_history (a\<lparr>past_obs := x, past_lms := y\<rparr>) (a\<lparr>past_obs := x', past_lms := y'\<rparr>)"
  by (simp add: same_but_history_def)

lemma roll_write_shape:
  assumes "length h = length h'"
  shows "rel_sum (=) (\<lambda>p p'. length p = length p') (roll_write h rows) (roll_write h' rows)"
  using assms by (auto simp: roll_write_def Let_def)

lemma explore_history:
  assumes "length x = length (past_obs a)" and "length y = length (past_lms a)"
  shows "rel_sum (=) (rel_prod (=) same_but_history)
           (explore E a ob) (explore E (a\<lparr>past_obs := x, past_lms := y\<rparr>) ob)"
proof -
  from roll_write_shape [OF assms(1) [symmetric], of "fst ob"]
  have 1: "rel_sum (=) (\<lambda>p p'. length p = length p')
             (roll_write (past_obs a) (fst ob)) (roll_write x (fst ob))" .
  from roll_write_shape [OF assms(2) [symmetric], of "snd ob"]
  have 2: "rel_sum (=) (\<lambda>p p'. length p = length p')
             (roll_write (past_lms a) (snd ob)) (roll_write y (snd ob))" .
  show ?thesis
    using 1 2
    by (auto simp: explore_def Let_def same_but_history_def rel_sum.simps
        split: sum.splits prod.splits)
qed


lemma exploit_history:
  assumes "length x = length (past_obs a)" and "length y = length (past_lms a)"
  shows "rel_sum (=) (rel_prod (=) same_but_history)
           (exploit E a ob ev) (exploit E (a\<lparr>past_obs := x, past_lms := y\<rparr>) ob ev)"
proof -
  from roll_write_shape [OF assms(1) [symmetric], of "fst ob"]
  have 1: "rel_sum (=) (\<lambda>p p'. length p = length p')
             (roll_write (past_obs a) (fst ob)) (roll_write x (fst ob))" .
  from roll_write_shape [OF assms(2) [symmetric], of "snd ob"]
  have 2: "rel_sum (=) (\<lambda>p p'. length p = length p')
             (roll_write (past_lms a) (snd ob)) (roll_write y (snd ob))" .
  show ?thesis
    using 1 2 assms
    by (cases ev)
      (auto simp: exploit_def Let_def same_but_history_def rel_sum.simps
        split: sum.splits prod.splits)
qed

lemma add_experience_history:
  assumes "length x = length (past_obs a)" and "length y = length (past_lms a)"
  shows "rel_sum (=) same_but_history
           (add_experience E a o1 acts rs o2 ts)
           (add_experience E (a\<lparr>past_obs := x, past_lms := y\<rparr>) o1 acts rs o2 ts)"
  using assms
  by (auto simp: add_experience_def Let_def same_but_history_def rel_sum.simps
      split: sum.splits prod.splits)

lemma sample_population_history:
  "sample_population E (a\<lparr>past_obs := x, past_lms := y\<rparr>) = sample_population E a"
  by (simp add: sample_population_def Let_def split: sum.splits prod.splits)

lemma update_history:
  assumes "length x = length (past_obs a)" and "length y = length (past_lms a)"
  shows "rel_sum (=) same_but_history
           (update E a) (update E (a\<lparr>past_obs := x, past_lms := y\<rparr>))"
  using assms
  by (auto simp: update_def Let_def same_but_history_def rel_sum.simps
      sample_population_history split: sum.splits prod.splits)

lemma update_prio_history:
  assumes "length x = length (past_obs a)" and "length y = length (past_lms a)"
  shows "rel_sum (=) same_but_history
           (update_prio E a) (update_prio E (a\<lparr>past_obs := x, past_lms := y\<rparr>))"
  using assms
  by (auto simp: update_prio_def Let_def same_but_history_def rel_sum.simps
      split: sum.splits prod.splits)

text \<open>
  Claim C10.  For two agents that differ only in the contents of \<^verbatim>\<open>past_obs\<close> and
  \<^verbatim>\<open>past_lms\<close>, each of \<^verbatim>\<open>explore\<close>, \<^verbatim>\<open>exploit\<close> (evaluating or not), \<^verbatim>\<open>add_experience\<close>,
  \<^verbatim>\<open>update\<close> and \<^verbatim>\<open>update_prio\<close> either raises the same error on both or returns the same
  actions and leaves two agents that again differ only in the contents of the two
  buffers.
\<close>

theorem history_is_never_read:
  assumes "same_but_history a b"
  shows "rel_sum (=) (rel_prod (=) same_but_history) (explore E a ob) (explore E b ob) \<and>
         rel_sum (=) (rel_prod (=) same_but_history) (exploit E a ob ev) (exploit E b ob ev) \<and>
         rel_sum (=) same_but_history
           (add_experience E a o1 acts rs o2 ts) (add_experience E b o1 acts rs o2 ts) \<and>
         rel_sum (=) same_but_history (update E a) (update E b) \<and>
         rel_sum (=) same_but_history (update_prio E a) (update_prio E b)"
proof -
  from assms obtain x y where b: "b = a\<lparr>past_obs := x, past_lms := y\<rparr>"
    and l: "length x = length (past_obs a)" "length y = length (past_lms a)"
    by (rule same_but_historyE)
  show ?thesis
    unfolding b
    using explore_history [OF l] exploit_history [OF l] add_experience_history [OF l]
      update_history [OF l] update_prio_history [OF l]
    by blast
qed

lemmas policy_eval_defs = explore_def roll_write_def reshape3_def policy_def mask_illegal_def
  legal_epsilon_greedy_sample_def argmax_with_random_tie_breaking_def
  argmax_with_random_tie_breaking_row_def xmaximum_def mix_with_legal_uniform_def
  mix_with_legal_uniform_row_def sample_defs

text \<open>
  The theorem of C10 at the one-member agent and a copy with other history contents:
  \<^verbatim>\<open>explore\<close> returns action 0 on both.
\<close>

theorem history_is_never_read_witness:
  "same_but_history small_agent (small_agent\<lparr>past_obs := [[7]], past_lms := [[True]]\<rparr>) \<and>
   rel_sum (=) (rel_prod (=) same_but_history)
     (explore fixed_batch_ext small_agent ([[1]], [[True]]))
     (explore fixed_batch_ext (small_agent\<lparr>past_obs := [[7]], past_lms := [[True]]\<rparr>)
        ([[1]], [[True]])) \<and>
   map_sum id fst (explore fixed_batch_ext small_agent ([[1]], [[True]])) = Inr [0] \<and>
   rel_sum (=) same_but_history
     (update fixed_batch_ext small_agent)
     (update fixed_batch_ext (small_agent\<lparr>past_obs := [[7]], past_lms := [[True]]\<rparr>))"
proof -
  have s: "same_but_history small_agent (small_agent\<lparr>past_obs := [[7]], past_lms := [[True]]\<rparr>)"
    by (simp add: same_but_history_def small_agent_def)
  have e: "map_sum id fst (explore fixed_batch_ext small_agent ([[1]], [[True]])) = Inr [0]"
    by (simp add: policy_eval_defs small_agent_def small_params_def fixed_batch_ext_def
        linear_network_def draw1 Let_def)
  from history_is_never_read [OF s, of fixed_batch_ext "([[1]], [[True]])"] s e
  show ?thesis by blast
qed

subsection \<open>Sampling with a positive draw\<close>

text \<open>
  Away from the draw 0 the sampler does what claims C6 and C7 say.  In exact arithmetic
  the cumulative sums of a vector that sums to 1 end in 1, so the clamp changes nothing,
  and a draw in \<open>(0, 0.999)\<close> selects the first index whose cumulative sum reaches it, an
  index of positive mass.
\<close>

lemma length_cumsum_from: "length (cumsum_from acc xs) = length xs"
  by (induction xs arbitrary: acc) simp_all

lemma cumsum_from_nth:
  "i < length xs \<Longrightarrow> cumsum_from acc xs ! i = acc + sum_list (take (Suc i) xs)"
proof (induction xs arbitrary: acc i)
  case Nil
  then show ?case by simp
next
  case (Cons x xs)
  show ?case
  proof (cases i)
    case 0
    then show ?thesis by simp
  next
    case (Suc j)
    with Cons.prems have "j < length xs" by simp
    from Cons.IH [OF this, of "acc + x"] Suc show ?thesis by (simp add: add.assoc)
  qed
qed

lemma first_false_le: "i < length bs \<Longrightarrow> \<not> bs ! i \<Longrightarrow> first_false bs \<le> i"
proof (induction bs arbitrary: i)
  case Nil
  then show ?case by simp
next
  case (Cons b bs)
  then show ?case by (cases i) (auto simp: first_false_def)
qed

lemma cumsum_nth: "i < length xs \<Longrightarrow> cumsum xs ! i = sum_list (take (Suc i) xs)"
  by (simp add: cumsum_def cumsum_from_nth)

lemma clamp_is_identity:
  assumes "sum_list probs = 1"
  shows "(cumsum probs)[length (cumsum probs) - 1 := 1] = cumsum probs"
proof -
  have ne: "probs \<noteq> []" using assms by auto
  have len: "length (cumsum probs) = length probs" by (simp add: cumsum_def length_cumsum_from)
  have "cumsum probs ! (length probs - 1) = 1"
    using ne assms by (simp add: cumsum_nth)
  then show ?thesis by (simp add: len list_update_same_conv ne)
qed

lemma length_cumsum: "length (cumsum xs) = length xs"
  by (simp add: cumsum_def length_cumsum_from)

lemma first_false_before: "j < first_false bs \<Longrightarrow> bs ! j"
proof -
  assume j: "j < first_false bs"
  then have "takeWhile (\<lambda>b. b) bs ! j \<in> set (takeWhile (\<lambda>b. b) bs)"
    by (simp add: first_false_def)
  then have "takeWhile (\<lambda>b. b) bs ! j" by (auto dest: set_takeWhileD)
  then show ?thesis using j by (simp add: first_false_def takeWhile_nth)
qed

lemma categorical_sample_row_positive_mass:
  assumes "sum_list probs = 1" and "0 < rnd" and "rnd < 999 / 1000"
  shows "categorical_sample_row rnd probs < length probs \<and>
         0 < probs ! categorical_sample_row rnd probs"
proof -
  define bs where "bs = map (\<lambda>c. rnd > c) (cumsum probs)"
  define k where "k = first_false bs"
  have ne: "probs \<noteq> []" using assms(1) by auto
  have len: "length bs = length probs" by (simp add: bs_def length_cumsum)
  have last_false: "\<not> bs ! (length probs - 1)"
    using ne assms by (simp add: bs_def cumsum_nth length_cumsum)
  have "first_false bs \<le> length probs - 1"
    using last_false len ne by (intro first_false_le) simp_all
  moreover have "0 < length probs" using ne by simp
  ultimately have klt: "k < length bs"
    unfolding k_def len by linarith
  have at_k: "\<not> bs ! k"
    using klt unfolding k_def first_false_def by (rule nth_length_takeWhile)
  have before_k: "\<And>j. j < k \<Longrightarrow> bs ! j"
    unfolding k_def by (rule first_false_before)
  have sample: "categorical_sample_row rnd probs = k"
    unfolding categorical_sample_row_def Let_def clamp_is_identity [OF assms(1)]
    using klt by (simp add: argmin_bool_def k_def bs_def)
  have kp: "k < length probs" using klt len by simp
  have le: "rnd \<le> sum_list (take (Suc k) probs)"
    using at_k kp by (simp add: bs_def cumsum_nth length_cumsum)
  have pos: "0 < probs ! k"
  proof (cases k)
    case 0
    with le kp assms(2) show ?thesis by (simp add: take_Suc_conv_app_nth)
  next
    case (Suc j)
    then have "bs ! j" using before_k by simp
    then have "sum_list (take (Suc j) probs) < rnd"
      using kp Suc by (simp add: bs_def cumsum_nth length_cumsum)
    with le Suc kp show ?thesis by (simp add: take_Suc_conv_app_nth)
  qed
  show ?thesis using sample kp pos by simp
qed

text \<open>
  With exactly one legal action both exploration policies put all mass on it, whatever
  the Q-values, epsilon and temperature are; a positive draw then returns it.
\<close>

lemma funpow_xmax_NegInf: "(xmax NegInf ^^ n) x = x"
  by (induction n) simp_all

lemma xmaximum_single:
  "xmaximum (replicate a NegInf @ Fin q # replicate b NegInf) = Fin q"
  by (simp add: xmaximum_def funpow_xmax_NegInf)

lemma mask_row_single:
  assumes "length xs = a" and "length ys = b"
  shows "map2 (\<lambda>l q. if l then Fin q else NegInf) (single_legal a b) (xs @ q # ys) =
         replicate a NegInf @ Fin q # replicate b NegInf"
proof -
  have 1: "\<And>zs. map2 (\<lambda>l q. if l then Fin q else NegInf) (replicate (length zs) False) zs =
          replicate (length zs) NegInf"
  proof -
    fix zs :: "real list"
    show "map2 (\<lambda>l q. if l then Fin q else NegInf) (replicate (length zs) False) zs =
          replicate (length zs) NegInf"
      by (induction zs) simp_all
  qed
  show ?thesis
    unfolding single_legal_def using assms 1 [of xs] 1 [of ys] by simp
qed

lemma sum_list_one_hot: "sum_list (one_hot a b) = 1"
  by (simp add: one_hot_def sum_list_replicate)

lemma one_hot_nth_pos: "k < a + b + 1 \<Longrightarrow> 0 < one_hot a b ! k \<Longrightarrow> k = a"
  by (auto simp: one_hot_def nth_append nth_Cons split: if_splits nat.splits)

lemma categorical_sample_row_one_hot:
  assumes "0 < rnd" and "rnd < 999 / 1000"
  shows "categorical_sample_row rnd (one_hot a b) = a"
proof -
  from categorical_sample_row_positive_mass [OF sum_list_one_hot assms, of a b]
  have "categorical_sample_row rnd (one_hot a b) < length (one_hot a b)"
    and "0 < one_hot a b ! categorical_sample_row rnd (one_hot a b)" by simp_all
  then show ?thesis by (intro one_hot_nth_pos) (simp_all add: one_hot_def)
qed

lemma tie_breaking_row_single:
  "argmax_with_random_tie_breaking_row (replicate a NegInf @ Fin q # replicate b NegInf) =
   one_hot a b"
  by (simp add: argmax_with_random_tie_breaking_row_def xmaximum_single Let_def one_hot_def
      map_replicate_const sum_list_replicate)

lemma sum_of_bool_single: "sum_list (map of_bool (single_legal a b)) = (1 :: real)"
  by (simp add: single_legal_def sum_list_replicate)

lemma mix_row_single:
  "mix_with_legal_uniform_row (one_hot a b) eps (single_legal a b) = one_hot a b"
proof -
  have z: "\<And>n. map2 (\<lambda>p u. (1 - eps) * p + eps * u) (replicate n 0) (replicate n 0) =
              replicate n (0 :: real)"
    by (simp add: zip_replicate map_replicate_const)
  show ?thesis
    unfolding mix_with_legal_uniform_row_def Let_def sum_of_bool_single
    by (simp add: one_hot_def single_legal_def z algebra_simps)
qed

lemma boltzmann_row_single:
  assumes "0 < t"
  shows "apply_legal_boltzmann_row (replicate a NegInf @ Fin q # replicate b NegInf) t
           (single_legal a b) = one_hot a b"
proof -
  have w: "map (\<lambda>p. xdiv p t) (replicate a NegInf @ Fin q # replicate b NegInf) =
           replicate a NegInf @ Fin (q / t) # replicate b NegInf"
    by simp
  have z: "\<And>n m. map2 (\<lambda>l w. if l then xexp_sub w m else 0) (replicate n False)
                   (replicate n NegInf) = replicate n 0"
    by (simp add: zip_replicate map_replicate_const)
  have b: "map2 (\<lambda>l w. if l then xexp_sub w (Fin (q / t)) else 0) (single_legal a b)
             (replicate a NegInf @ Fin (q / t) # replicate b NegInf) = one_hot a b"
    by (simp add: single_legal_def one_hot_def z)
  show ?thesis
    unfolding apply_legal_boltzmann_row_def Let_def w xmaximum_single b sum_list_one_hot
    by simp
qed

lemma mask_row_single_nth:
  assumes "length qs = a + b + 1"
  shows "map2 (\<lambda>l q. if l then Fin q else NegInf) (single_legal a b) qs =
         replicate a NegInf @ Fin (qs ! a) # replicate b NegInf"
proof -
  have a: "a < length qs" using assms by simp
  have "qs = take a qs @ qs ! a # drop (Suc a) qs" using a by (rule id_take_nth_drop)
  moreover have "length (take a qs) = a" "length (drop (Suc a) qs) = b" using assms by simp_all
  ultimately show ?thesis using mask_row_single [of "take a qs" a "drop (Suc a) qs" b "qs ! a"]
    by simp
qed

lemma policy_single_legal_positive_draw:
  assumes "u k 1 = [rnd]" and "0 < rnd" and "rnd < 999 / 1000"
      and "length (qvals ! 0) = a + b + 1" and "length qvals = 1"
      and "qvals = (if cat then map (\<lambda>row. map2 dist_q_value row ats)
                                 (map (map softmax) (apply_logits net ps k [ob]))
                    else apply_q net ps k [ob])"
      and "0 < t"
  shows "snd (policy u net cat sm ats ps eps t k [ob] [single_legal a b]) = [a]"
proof -
  from assms(5) obtain qs where q: "qvals = [qs]" by (cases qvals) auto
  with assms(4) have l: "length qs = a + b + 1" by simp
  have m: "mask_illegal [single_legal a b] qvals = [replicate a NegInf @ Fin (qs ! a) # replicate b NegInf]"
    by (simp add: mask_illegal_def q mask_row_single_nth [OF l])
  have u1: "u k (Suc 0) = [rnd]" using assms(1) by simp
  have s: "categorical_sample u k [one_hot a b] = [a]"
    by (simp add: categorical_sample_def u1 categorical_sample_row_one_hot [OF assms(2,3)])
  have e: "legal_epsilon_greedy_sample u eps k
             [replicate a NegInf @ Fin (qs ! a) # replicate b NegInf] [single_legal a b] = [a]"
    by (simp add: legal_epsilon_greedy_sample_def argmax_with_random_tie_breaking_def
        mix_with_legal_uniform_def tie_breaking_row_single mix_row_single s)
  have b: "legal_softmax_sample u t k
             [replicate a NegInf @ Fin (qs ! a) # replicate b NegInf] [single_legal a b] = [a]"
    by (simp add: legal_softmax_sample_def apply_legal_boltzmann_def
        boltzmann_row_single [OF assms(7)] s)
  show ?thesis
    unfolding policy_def Let_def assms(6) [symmetric] m
    using e b by simp
qed

text \<open>
  \<^verbatim>\<open>eval_policy\<close> returns the single legal action for every greedy sampler that returns
  an index holding the row maximum.
\<close>

lemma eval_policy_single_legal_argmax:
  assumes "\<And>prefs. length (g k [prefs]) = 1 \<and> prefs ! (g k [prefs] ! 0) = xmaximum prefs \<and>
                     g k [prefs] ! 0 < length prefs"
      and "length (qvals ! 0) = a + b + 1" and "length qvals = 1"
      and "qvals = (if cat then map (\<lambda>row. map2 dist_q_value row ats)
                                 (map (map softmax) (apply_logits net ps k [ob]))
                    else apply_q net ps k [ob])"
  shows "eval_policy g net cat ats ps k [ob] [single_legal a b] = [a]"
proof -
  from assms(3) obtain qs where q: "qvals = [qs]" by (cases qvals) auto
  with assms(2) have l: "length qs = a + b + 1" by simp
  define prefs where "prefs = replicate a NegInf @ Fin (qs ! a) # replicate b NegInf"
  have m: "mask_illegal [single_legal a b] qvals = [prefs]"
    by (simp add: mask_illegal_def q mask_row_single_nth [OF l] prefs_def)
  from assms(1) [of prefs] obtain i where g: "g k [prefs] = [i]" and
    i: "prefs ! i = xmaximum prefs" "i < length prefs"
    by (cases "g k [prefs]") auto
  have "xmaximum prefs = Fin (qs ! a)" by (simp add: prefs_def xmaximum_single)
  with i have "i = a"
    by (auto simp: prefs_def nth_append nth_Cons split: if_splits nat.splits)
  then show ?thesis
    unfolding eval_policy_def Let_def assms(4) [symmetric] m using g by simp
qed

subsection \<open>\<^verbatim>\<open>update_prio\<close> when it returns\<close>

text \<open>
  Without prioritized replay the call changes nothing.  With it, the call returns only
  when more than two entries were pending, and then leaves the two most recent ones.
\<close>

lemma update_prio_disabled: "\<not> use_priority (params a) \<Longrightarrow> update_prio E a = Inr a"
  by (simp add: update_prio_def)

lemma hstack_Inr_nonempty: "hstack ms = Inr r \<Longrightarrow> ms \<noteq> []"
  by (auto simp: hstack_def)

lemma update_prio_returns:
  assumes "use_priority (params a)" and "update_prio E a = Inr a'"
  shows "2 < length (intermediate_tds a) \<and>
         intermediate_tds a' = last_two (intermediate_tds a) \<and>
         intermediate_indices a' = last_two (intermediate_indices a) \<and>
         length (intermediate_tds a') = 2"
proof -
  from assms obtain tds_np where h: "hstack (all_but_last_two (intermediate_tds a)) = Inr tds_np"
    and q: "intermediate_tds a' = last_two (intermediate_tds a)"
           "intermediate_indices a' = last_two (intermediate_indices a)"
    by (auto simp: update_prio_def Let_def split: sum.splits)
  from hstack_Inr_nonempty [OF h] have "2 < length (intermediate_tds a)"
    by (simp add: all_but_last_two_def)
  then show ?thesis using q by (simp add: last_two_def)
qed

subsection \<open>\<^verbatim>\<open>change_buffersize\<close>\<close>

lemma change_buffersize_list:
  "buffersize a = PyList xs \<Longrightarrow> change_buffersize a f surv = Inl TypeError"
  by (simp add: change_buffersize_def buffersize_choices_def)

lemma init_buffersize:
  assumes "DQNAgent_init E net od nv bs ls als ps = Inr a"
  shows "buffersize a = PyList bs \<and> experience a =
           map (\<lambda>i. new_buffer E (use_priority ps) (od * history_size ps) nv (bs ! i)
                       (if use_priority ps then als ! i else 0)) [0..<length ls]"
  using assms
  by (auto simp: DQNAgent_init_def Let_def split: prod.splits if_splits)

text \<open>
  On every agent that \<^verbatim>\<open>__init__\<close> builds the hook raises at its first comparison, for
  every factor and every survivor size; and whatever \<^verbatim>\<open>self.buffersize\<close> holds, the hook
  never returns.
\<close>

lemma change_buffersize_constructed:
  assumes "DQNAgent_init E net od nv bs ls als ps = Inr a"
  shows "change_buffersize a f surv = Inl TypeError"
  using init_buffersize [OF assms] by (simp add: change_buffersize_list)

lemma change_buffersize_never_returns: "\<exists>e. change_buffersize a f surv = Inl e"
  by (cases "buffersize_choices (buffersize a) f") (simp_all add: change_buffersize_def)

text \<open>
  Claim C9 at the one-member agent that \<^verbatim>\<open>__init__\<close> builds with the capacity list \<open>[4]\<close>,
  a capacity of at most 512, with factor 2 and a survivor of size 512: \<^verbatim>\<open>self.buffersize\<close>
  is the list \<open>[4]\<close>, the comparison \<^verbatim>\<open>self.buffersize <= 512\<close> raises, and no capacity
  grows.
\<close>

theorem change_buffersize_raises_on_constructed_agent:
  "DQNAgent_init fixed_batch_ext linear_network 1 1 [4] [1 / 2] [1] small_params = Inr small_agent \<and>
   buffersize small_agent = PyList [4] \<and>
   change_buffersize small_agent 2 512 = Inl TypeError"
  using init_small change_buffersize_constructed [OF init_small]
  by (simp add: small_agent_def)

end
